theory Spec2Isabelle
  imports Complex_Main
begin

section \<open>Python values\<close>

text \<open>
  The package \<^verbatim>\<open>vhm_common_utils\<close> is dynamically typed Python: a constructor of a
  record receives arbitrary objects as keyword arguments and a function may return
  \<^verbatim>\<open>None\<close> where its annotation promises a list. The values are therefore
  modelled as one datatype, of the objects of the classes \<^verbatim>\<open>NoneType\<close>,
  \<^verbatim>\<open>bool\<close>, \<^verbatim>\<open>int\<close>, \<^verbatim>\<open>float\<close>, \<^verbatim>\<open>str\<close>, \<^verbatim>\<open>datetime\<close>,
  \<^verbatim>\<open>list\<close> and \<^verbatim>\<open>dict\<close>; objects of other classes (\<^verbatim>\<open>bytes\<close>,
  \<^verbatim>\<open>Decimal\<close>, \<^verbatim>\<open>date\<close>, mappings that are no \<^verbatim>\<open>dict\<close>) are not modelled. A \<^verbatim>\<open>str\<close> is a \<open>string\<close>, read as the
  sequence of bytes of its UTF-8 encoding (an emoji is several characters); a
  \<^verbatim>\<open>float\<close> is read as the real number it denotes; a \<^verbatim>\<open>dict\<close> is an association
  list in insertion order.
\<close>

text \<open>
  \<^verbatim>\<open>datetime.datetime\<close>: the calendar fields and \<^verbatim>\<open>tzinfo\<close>. A fixed-offset time
  zone (\<^verbatim>\<open>datetime.timezone\<close>) is its offset from UTC in seconds; \<open>None\<close> is
  \<^verbatim>\<open>tzinfo=None\<close>, a naive timestamp.
\<close>

record datetime =
  year :: nat
  month :: nat
  day :: nat
  hour :: nat
  minute :: nat
  second :: nat
  microsecond :: nat
  tzinfo :: "int option"

datatype pyval =
    PyNone
  | PyBool bool
  | PyInt int
  | PyFloat real
  | PyStr string
  | PyDatetime datetime
  | PyList "pyval list"
  | PyDict "(pyval \<times> pyval) list"

section \<open>config.py\<close>

text \<open>
  \<^verbatim>\<open>
  class Settings(BaseSettings):
      model_config = SettingsConfigDict(env_file=".env", env_file_encoding="utf-8", extra="ignore")
      kafka_bootstrap_servers: str = "localhost:9092"
      qdrant_url: str = "http://localhost:6333"
      qdrant_collection: str = "anchors"
      embedding_model: str = "deterministic"
      ollama_base_url: str = "http://localhost:11434"
      portkey_api_key: str | None = None
      portkey_base_url: str = "https://api.portkey.ai/v1"
  \<close>
\<close>

record Settings =
  kafka_bootstrap_servers :: string
  qdrant_url :: string
  qdrant_collection :: string
  embedding_model :: string
  ollama_base_url :: string
  portkey_api_key :: "string option"
  portkey_base_url :: string

text \<open>
  The process environment and the contents of the file \<^verbatim>\<open>.env\<close> are lists of
  name/value pairs, in iteration order. \<^verbatim>\<open>BaseSettings\<close> is not case sensitive unless
  configured so: it lower-cases every name and builds a dictionary, so that of two
  names that agree up to case the later one wins; then each field looks up its own
  name. Names are taken to be ASCII, and \<open>lower\<close> is \<^verbatim>\<open>str.lower\<close> on ASCII.
\<close>

type_synonym environ = "(string \<times> string) list"

definition lower_char :: "char \<Rightarrow> char" where
  "lower_char c =
     (case map_of (zip ''ABCDEFGHIJKLMNOPQRSTUVWXYZ'' ''abcdefghijklmnopqrstuvwxyz'') c of
        Some d \<Rightarrow> d
      | None \<Rightarrow> c)"

definition lower :: "string \<Rightarrow> string" where
  "lower s = map lower_char s"

definition parse_env_vars :: "environ \<Rightarrow> (string \<rightharpoonup> string)" where
  "parse_env_vars env = map_of (rev (map (\<lambda>(k, v). (lower k, v)) env))"

text \<open>
  The sources of a field in the order of \<^verbatim>\<open>BaseSettings\<close>: the process environment,
  then the file \<^verbatim>\<open>.env\<close> when there is one (\<open>None\<close>: no such file), then the default of
  the class. Every field is a \<^verbatim>\<open>str\<close> (or \<^verbatim>\<open>str | None\<close>) and every value of the
  environment is a \<^verbatim>\<open>str\<close>, so no value is rejected; names that are no field are
  ignored (\<^verbatim>\<open>extra="ignore"\<close>).
\<close>

definition dotenv_vars :: "environ option \<Rightarrow> environ" where
  "dotenv_vars dotenv = (case dotenv of None \<Rightarrow> [] | Some file \<Rightarrow> file)"

definition env_lookup :: "environ \<Rightarrow> environ option \<Rightarrow> string \<Rightarrow> string option" where
  "env_lookup env dotenv name =
     (case parse_env_vars env name of
        Some v \<Rightarrow> Some v
      | None \<Rightarrow> parse_env_vars (dotenv_vars dotenv) name)"

definition str_field :: "environ \<Rightarrow> environ option \<Rightarrow> string \<Rightarrow> string \<Rightarrow> string" where
  "str_field env dotenv name dflt =
     (case env_lookup env dotenv name of Some v \<Rightarrow> v | None \<Rightarrow> dflt)"

definition Settings_init :: "environ \<Rightarrow> environ option \<Rightarrow> Settings" where
  "Settings_init env dotenv =
     \<lparr> kafka_bootstrap_servers = str_field env dotenv ''kafka_bootstrap_servers'' ''localhost:9092'',
       qdrant_url = str_field env dotenv ''qdrant_url'' ''http://localhost:6333'',
       qdrant_collection = str_field env dotenv ''qdrant_collection'' ''anchors'',
       embedding_model = str_field env dotenv ''embedding_model'' ''deterministic'',
       ollama_base_url = str_field env dotenv ''ollama_base_url'' ''http://localhost:11434'',
       portkey_api_key = env_lookup env dotenv ''portkey_api_key'',
       portkey_base_url = str_field env dotenv ''portkey_base_url'' ''https://api.portkey.ai/v1'' \<rparr>"

text \<open>The names of the fields of the class, in the order of their declaration.\<close>

definition Settings_fields :: "string list" where
  "Settings_fields =
     [''kafka_bootstrap_servers'', ''qdrant_url'', ''qdrant_collection'', ''embedding_model'',
      ''ollama_base_url'', ''portkey_api_key'', ''portkey_base_url'']"

text \<open>A list of variables none of which names a field of \<open>Settings\<close>.\<close>

definition unrecognized :: "environ \<Rightarrow> bool" where
  "unrecognized env = list_all (\<lambda>kv. lower (fst kv) \<notin> set Settings_fields) env"

section \<open>embedding.py\<close>

text \<open>
  \<^verbatim>\<open>
  from .config import settings

  def get_embedding(text: str) -> List[float]:
      """Main embedding function that respects EMBEDDING_MODEL env var."""
      # ... (refactor this function to use settings.embedding_model)
      pass
  \<close>
  The module-level \<^verbatim>\<open>settings\<close> object is an explicit argument. The body is
  \<^verbatim>\<open>pass\<close>: the call reads neither argument, raises nothing and returns \<^verbatim>\<open>None\<close>.
  An exception would be \<open>Inl\<close>.
\<close>

datatype error = ValidationError "string list"

definition get_embedding :: "Settings \<Rightarrow> string \<Rightarrow> error + pyval" where
  "get_embedding settings text = Inr PyNone"

text \<open>
  What the tests of the package assert of a result (\<^verbatim>\<open>test_embedding_basic\<close>):
  \<^verbatim>\<open>
  assert isinstance(embedding, list)
  assert len(embedding) > 0
  assert all(isinstance(x, (int, float)) for x in embedding)
  \<close>
  A \<^verbatim>\<open>bool\<close> is an instance of \<^verbatim>\<open>int\<close>.
\<close>

fun is_number :: "pyval \<Rightarrow> bool" where
  "is_number (PyInt i) = True"
| "is_number (PyFloat r) = True"
| "is_number (PyBool b) = True"
| "is_number _ = False"

fun is_numeric_vector :: "pyval \<Rightarrow> bool" where
  "is_numeric_vector (PyList xs) = (xs \<noteq> [] \<and> list_all is_number xs)"
| "is_numeric_vector _ = False"

section \<open>data\_models.py\<close>

text \<open>
  \<^verbatim>\<open>
  class Anchor(BaseModel):
      anchor_id: str
      text: str
      stored_at: datetime.datetime
      salience: float = Field(default=1.0)
      meta: Dict[str, Any] = Field(default_factory=dict)

  class IndexedAnchorResponse(BaseModel):
      anchor_id: str
      ok: bool
      reason: str | None = None
      detail: str | None = None
  \<close>
  Both classes are pydantic models with no configuration of their own, so a
  constructor call validates each keyword argument against the annotation of its
  field in pydantic's default mode, which converts some values of other types
  instead of rejecting them. A validator returns \<open>None\<close> for a value it rejects.
\<close>

text \<open>
  The conversions of pydantic that parse a string, read a number as a point in
  time or round a large integer to a double are code of the library, not of this
  package. They are a parameter of the model: \<open>float_lax\<close> is asked for a
  \<^verbatim>\<open>str\<close>, a \<^verbatim>\<open>bool\<close> or an \<^verbatim>\<open>int\<close> beyond \<open>2 ^ 53\<close> in magnitude given to
  a \<^verbatim>\<open>float\<close> field, \<open>datetime_lax\<close> for a \<^verbatim>\<open>str\<close>, an \<^verbatim>\<open>int\<close> or a
  \<^verbatim>\<open>float\<close> given to a \<^verbatim>\<open>datetime\<close> field.
\<close>

record conversions =
  float_lax :: "pyval \<Rightarrow> real option"
  datetime_lax :: "pyval \<Rightarrow> datetime option"

text \<open>The table that converts nothing.\<close>

definition no_conversions :: conversions where
  "no_conversions = \<lparr> float_lax = (\<lambda>v. None), datetime_lax = (\<lambda>v. None) \<rparr>"

text \<open>
  A \<^verbatim>\<open>str\<close> field takes a \<^verbatim>\<open>str\<close> as it is; numbers are not turned into text.
  (It would decode a \<^verbatim>\<open>bytes\<close> object, which is not among the values modelled.)
\<close>

fun validate_str :: "pyval \<Rightarrow> string option" where
  "validate_str (PyStr s) = Some s"
| "validate_str _ = None"

text \<open>
  A \<^verbatim>\<open>bool\<close> field takes a \<^verbatim>\<open>bool\<close>, the numbers 0 and 1, and the strings
  \<^verbatim>\<open>0 f n no off false\<close> and \<^verbatim>\<open>1 t y on yes true\<close> in any case.
\<close>

definition str_as_bool :: "string \<Rightarrow> bool option" where
  "str_as_bool s =
     (if s = ''0'' \<or> lower s \<in> set [''f'', ''n'', ''no'', ''off'', ''false''] then Some False
      else if s = ''1'' \<or> lower s \<in> set [''t'', ''y'', ''on'', ''yes'', ''true''] then Some True
      else None)"

fun validate_bool :: "pyval \<Rightarrow> bool option" where
  "validate_bool (PyBool b) = Some b"
| "validate_bool (PyInt i) = (if i = 0 then Some False else if i = 1 then Some True else None)"
| "validate_bool (PyFloat r) = (if r = 0 then Some False else if r = 1 then Some True else None)"
| "validate_bool (PyStr s) = str_as_bool s"
| "validate_bool _ = None"

text \<open>
  A \<^verbatim>\<open>float\<close> field takes a \<^verbatim>\<open>float\<close> as it is and an \<^verbatim>\<open>int\<close> as the
  double of the same value; every integer up to \<open>2 ^ 53\<close> in magnitude is a double.
\<close>

fun validate_float :: "conversions \<Rightarrow> pyval \<Rightarrow> real option" where
  "validate_float c (PyFloat r) = Some r"
| "validate_float c (PyInt i) =
     (if \<bar>i\<bar> \<le> 2 ^ 53 then Some (of_int i) else float_lax c (PyInt i))"
| "validate_float c (PyStr s) = float_lax c (PyStr s)"
| "validate_float c (PyBool b) = float_lax c (PyBool b)"
| "validate_float c _ = None"

text \<open>
  A \<^verbatim>\<open>datetime.datetime\<close> field takes a \<^verbatim>\<open>datetime\<close> object as it is, with or
  without \<^verbatim>\<open>tzinfo\<close>: the annotation is not \<^verbatim>\<open>AwareDatetime\<close>. A \<^verbatim>\<open>bool\<close>
  is never read as a point in time.
\<close>

fun validate_datetime :: "conversions \<Rightarrow> pyval \<Rightarrow> datetime option" where
  "validate_datetime c (PyDatetime d) = Some d"
| "validate_datetime c (PyStr s) = datetime_lax c (PyStr s)"
| "validate_datetime c (PyInt i) = datetime_lax c (PyInt i)"
| "validate_datetime c (PyFloat r) = datetime_lax c (PyFloat r)"
| "validate_datetime c _ = None"

text \<open>
  A \<^verbatim>\<open>Dict[str, Any]\<close> field takes a \<^verbatim>\<open>dict\<close> whose keys are all \<^verbatim>\<open>str\<close>; the
  values are \<^verbatim>\<open>Any\<close> and stay as they are. (It would also take a mapping that
  is no \<^verbatim>\<open>dict\<close>, which is not among the values modelled.)
\<close>

fun validate_keys :: "(pyval \<times> pyval) list \<Rightarrow> (string \<times> pyval) list option" where
  "validate_keys [] = Some []"
| "validate_keys ((k, v) # kvs) =
     (case validate_str k of
        None \<Rightarrow> None
      | Some s \<Rightarrow> (case validate_keys kvs of
                    None \<Rightarrow> None
                  | Some r \<Rightarrow> Some ((s, v) # r)))"

fun validate_dict :: "pyval \<Rightarrow> (string \<times> pyval) list option" where
  "validate_dict (PyDict kvs) = validate_keys kvs"
| "validate_dict _ = None"

text \<open>A \<^verbatim>\<open>str | None\<close> field takes \<^verbatim>\<open>None\<close> or what a \<^verbatim>\<open>str\<close> field takes.\<close>

fun validate_optional_str :: "pyval \<Rightarrow> string option option" where
  "validate_optional_str PyNone = Some None"
| "validate_optional_str v = map_option Some (validate_str v)"

text \<open>
  The keyword arguments of a call, in the order they are written. A field with no
  default is required: its validation fails when the argument is missing. A default
  is used when the argument is missing and is not validated. Arguments that name no
  field are ignored.
\<close>

type_synonym kwargs = "(string \<times> pyval) list"

definition required :: "(pyval \<Rightarrow> 'a option) \<Rightarrow> pyval option \<Rightarrow> 'a option" where
  "required validate arg = (case arg of None \<Rightarrow> None | Some v \<Rightarrow> validate v)"

definition with_default :: "(pyval \<Rightarrow> 'a option) \<Rightarrow> 'a \<Rightarrow> pyval option \<Rightarrow> 'a option" where
  "with_default validate dflt arg = (case arg of None \<Rightarrow> Some dflt | Some v \<Rightarrow> validate v)"

text \<open>
  \<^verbatim>\<open>ValidationError\<close> carries the errors of all fields, in the order of the fields:
  here the names of the fields that failed.
\<close>

definition failed :: "string \<Rightarrow> 'a option \<Rightarrow> string list" where
  "failed name r = (case r of None \<Rightarrow> [name] | Some x \<Rightarrow> [])"

record Anchor =
  anchor_id :: string
  "text" :: string
  stored_at :: datetime
  salience :: real
  meta :: "(string \<times> pyval) list"

definition Anchor_init :: "conversions \<Rightarrow> kwargs \<Rightarrow> error + Anchor" where
  "Anchor_init c kw =
     (let a = required validate_str (map_of kw ''anchor_id'');
          t = required validate_str (map_of kw ''text'');
          d = required (validate_datetime c) (map_of kw ''stored_at'');
          s = with_default (validate_float c) 1 (map_of kw ''salience'');
          m = with_default validate_dict [] (map_of kw ''meta'')
      in case (a, t, d, s, m) of
           (Some a', Some t', Some d', Some s', Some m') \<Rightarrow>
             Inr \<lparr> anchor_id = a', text = t', stored_at = d', salience = s', meta = m' \<rparr>
         | _ \<Rightarrow>
             Inl (ValidationError (failed ''anchor_id'' a @ failed ''text'' t @
                    failed ''stored_at'' d @ failed ''salience'' s @ failed ''meta'' m)))"

record IndexedAnchorResponse =
  anchor_id :: string
  ok :: bool
  reason :: "string option"
  detail :: "string option"

definition IndexedAnchorResponse_init :: "kwargs \<Rightarrow> error + IndexedAnchorResponse" where
  "IndexedAnchorResponse_init kw =
     (let a = required validate_str (map_of kw ''anchor_id'');
          b = required validate_bool (map_of kw ''ok'');
          r = with_default validate_optional_str None (map_of kw ''reason'');
          d = with_default validate_optional_str None (map_of kw ''detail'')
      in case (a, b, r, d) of
           (Some a', Some b', Some r', Some d') \<Rightarrow>
             Inr \<lparr> anchor_id = a', ok = b', reason = r', detail = d' \<rparr>
         | _ \<Rightarrow>
             Inl (ValidationError (failed ''anchor_id'' a @ failed ''ok'' b @
                    failed ''reason'' r @ failed ''detail'' d)))"

text \<open>A timestamp is aware when it has a time zone, naive when it has none.\<close>

definition is_aware :: "datetime \<Rightarrow> bool" where
  "is_aware d = (tzinfo d \<noteq> None)"

text \<open>The defaults that the class \<open>Settings\<close> declares.\<close>

definition Settings_defaults :: Settings where
  "Settings_defaults =
     \<lparr> kafka_bootstrap_servers = ''localhost:9092'',
       qdrant_url = ''http://localhost:6333'',
       qdrant_collection = ''anchors'',
       embedding_model = ''deterministic'',
       ollama_base_url = ''http://localhost:11434'',
       portkey_api_key = None,
       portkey_base_url = ''https://api.portkey.ai/v1'' \<rparr>"

section \<open>Properties of the embedding function\<close>

text \<open>
  C10: the result of \<open>get_embedding\<close> does not depend on its input: for any two
  texts and any two configurations (whatever \<open>embedding_model\<close> is) the two calls
  return the same result; nothing is dispatched on \<open>embedding_model\<close>.
\<close>

theorem get_embedding_constant:
  "get_embedding s1 t1 = get_embedding s2 t2"
  by (simp add: get_embedding_def)

text \<open>
  C2: with the deterministic strategy selected, two calls of \<open>get_embedding\<close> on
  the same text give equal results, whatever else the configuration of either call
  holds.
\<close>

theorem get_embedding_deterministic:
  "embedding_model s1 = ''deterministic'' \<Longrightarrow> embedding_model s2 = ''deterministic'' \<Longrightarrow>
     get_embedding s1 t = get_embedding s2 t"
  by (simp add: get_embedding_def)

theorem get_embedding_deterministic_witness:
  "embedding_model (Settings_init [] None) = ''deterministic''
   \<and> embedding_model (Settings_init [(''QDRANT_URL'', ''http://qdrant:6333'')] None) = ''deterministic''
   \<and> get_embedding (Settings_init [] None) ''Consistent test text''
       = get_embedding (Settings_init [(''QDRANT_URL'', ''http://qdrant:6333'')] None)
           ''Consistent test text''"
proof -
  have 1: "embedding_model (Settings_init [] None) = ''deterministic''"
    by (simp add: Settings_init_def str_field_def env_lookup_def parse_env_vars_def
        dotenv_vars_def)
  have 2: "embedding_model (Settings_init [(''QDRANT_URL'', ''http://qdrant:6333'')] None)
             = ''deterministic''"
    by (simp add: Settings_init_def str_field_def env_lookup_def parse_env_vars_def
        dotenv_vars_def lower_def lower_char_def)
  from get_embedding_deterministic [OF 1 2, of "''Consistent test text''"] 1 2
  show ?thesis by blast
qed

text \<open>
  C1, at the input of \<^verbatim>\<open>test_embedding_basic\<close> under the default configuration:
  the call returns \<^verbatim>\<open>None\<close>, which is no non-empty list of numbers.
\<close>

theorem get_embedding_basic_returns_None:
  "get_embedding (Settings_init [] None) ''The quick brown fox'' = Inr PyNone
   \<and> \<not> is_numeric_vector PyNone"
  by (simp add: get_embedding_def)

text \<open>
  C3, with \<^verbatim>\<open>EMBEDDING_MODEL=portkey\<close> as the only variable set: the configuration
  selects the gateway and has no API key, and the call raises nothing.
\<close>

theorem get_embedding_portkey_without_key:
  "embedding_model (Settings_init [(''EMBEDDING_MODEL'', ''portkey'')] None) = ''portkey''
   \<and> portkey_api_key (Settings_init [(''EMBEDDING_MODEL'', ''portkey'')] None) = None
   \<and> get_embedding (Settings_init [(''EMBEDDING_MODEL'', ''portkey'')] None) ''hello'' = Inr PyNone"
  by (simp add: get_embedding_def Settings_init_def str_field_def env_lookup_def
      parse_env_vars_def dotenv_vars_def lower_def lower_char_def)

text \<open>
  C4, at the empty text: the call raises no error and what it returns is no vector
  of numbers.
\<close>

theorem get_embedding_empty_text:
  "\<not> isl (get_embedding (Settings_init [] None) [])
   \<and> \<not> is_numeric_vector (projr (get_embedding (Settings_init [] None) []))"
  by (simp add: get_embedding_def)

section \<open>Properties of the settings\<close>

lemma parse_env_vars_unrecognized:
  "unrecognized env \<Longrightarrow> name \<in> set Settings_fields \<Longrightarrow> parse_env_vars env name = None"
  unfolding parse_env_vars_def unrecognized_def
  by (induction env) (auto simp: list_all_iff map_of_eq_None_iff image_iff)

lemma parse_env_vars_set:
  assumes "unrecognized e1" "unrecognized e2" "name \<in> set Settings_fields"
  shows "parse_env_vars (e1 @ (k, v) # e2) name = (if lower k = name then Some v else None)"
proof -
  have 1: "map_of (rev (map (\<lambda>(k, v). (lower k, v)) e1)) name = None"
    using parse_env_vars_unrecognized [OF assms(1,3)] by (simp add: parse_env_vars_def)
  have 2: "map_of (rev (map (\<lambda>(k, v). (lower k, v)) e2)) name = None"
    using parse_env_vars_unrecognized [OF assms(2,3)] by (simp add: parse_env_vars_def)
  show ?thesis
    by (simp add: parse_env_vars_def map_add_def 1 2)
qed

lemma lower_names:
  "lower ''KAFKA_BOOTSTRAP_SERVERS'' = ''kafka_bootstrap_servers''"
  "lower ''QDRANT_URL'' = ''qdrant_url''"
  "lower ''QDRANT_COLLECTION'' = ''qdrant_collection''"
  "lower ''EMBEDDING_MODEL'' = ''embedding_model''"
  "lower ''OLLAMA_BASE_URL'' = ''ollama_base_url''"
  "lower ''PORTKEY_API_KEY'' = ''portkey_api_key''"
  "lower ''PORTKEY_BASE_URL'' = ''portkey_base_url''"
  by (simp_all add: lower_def lower_char_def)

lemma env_lookup_unset:
  "unrecognized env \<Longrightarrow> unrecognized (dotenv_vars dotenv) \<Longrightarrow> name \<in> set Settings_fields
   \<Longrightarrow> env_lookup env dotenv name = None"
  by (simp add: env_lookup_def parse_env_vars_unrecognized)

lemma env_lookup_set:
  "unrecognized e1 \<Longrightarrow> unrecognized e2 \<Longrightarrow> unrecognized (dotenv_vars dotenv)
   \<Longrightarrow> name \<in> set Settings_fields
   \<Longrightarrow> env_lookup (e1 @ (k, v) # e2) dotenv name = (if lower k = name then Some v else None)"
  by (simp add: env_lookup_def parse_env_vars_set parse_env_vars_unrecognized)

lemma unrecognized_append: "unrecognized e1 \<Longrightarrow> unrecognized e2 \<Longrightarrow> unrecognized (e1 @ e2)"
  by (simp add: unrecognized_def)

lemma Settings_init_unset:
  assumes "unrecognized env" "unrecognized (dotenv_vars dotenv)"
  shows "Settings_init env dotenv = Settings_defaults"
  using assms
  by (simp add: Settings_init_def Settings_defaults_def str_field_def env_lookup_unset
      Settings_fields_def)

lemma Settings_init_set:
  assumes "unrecognized e1" "unrecognized e2" "unrecognized (dotenv_vars dotenv)"
  shows "Settings_init (e1 @ (''KAFKA_BOOTSTRAP_SERVERS'', v) # e2) dotenv
           = Settings_defaults\<lparr>kafka_bootstrap_servers := v\<rparr>"
    and "Settings_init (e1 @ (''QDRANT_URL'', v) # e2) dotenv
           = Settings_defaults\<lparr>qdrant_url := v\<rparr>"
    and "Settings_init (e1 @ (''QDRANT_COLLECTION'', v) # e2) dotenv
           = Settings_defaults\<lparr>qdrant_collection := v\<rparr>"
    and "Settings_init (e1 @ (''EMBEDDING_MODEL'', v) # e2) dotenv
           = Settings_defaults\<lparr>embedding_model := v\<rparr>"
    and "Settings_init (e1 @ (''OLLAMA_BASE_URL'', v) # e2) dotenv
           = Settings_defaults\<lparr>ollama_base_url := v\<rparr>"
    and "Settings_init (e1 @ (''PORTKEY_API_KEY'', v) # e2) dotenv
           = Settings_defaults\<lparr>portkey_api_key := Some v\<rparr>"
    and "Settings_init (e1 @ (''PORTKEY_BASE_URL'', v) # e2) dotenv
           = Settings_defaults\<lparr>portkey_base_url := v\<rparr>"
  using assms
  by (simp_all add: Settings_init_def Settings_defaults_def str_field_def env_lookup_set
      Settings_fields_def lower_names)

text \<open>
  C7: when neither the environment nor the file \<^verbatim>\<open>.env\<close> holds a variable that
  names a field, the settings object has every default of the class; and when one
  of the seven variables is set besides, wherever it stands in the environment, its
  field has the value of the variable and every other field keeps its default.
\<close>

theorem Settings_defaults_and_overrides:
  assumes "unrecognized e1" and "unrecognized e2" and "unrecognized (dotenv_vars dotenv)"
  shows "Settings_init (e1 @ e2) dotenv = Settings_defaults
    \<and> Settings_init (e1 @ (''KAFKA_BOOTSTRAP_SERVERS'', v) # e2) dotenv
        = Settings_defaults\<lparr>kafka_bootstrap_servers := v\<rparr>
    \<and> Settings_init (e1 @ (''QDRANT_URL'', v) # e2) dotenv
        = Settings_defaults\<lparr>qdrant_url := v\<rparr>
    \<and> Settings_init (e1 @ (''QDRANT_COLLECTION'', v) # e2) dotenv
        = Settings_defaults\<lparr>qdrant_collection := v\<rparr>
    \<and> Settings_init (e1 @ (''EMBEDDING_MODEL'', v) # e2) dotenv
        = Settings_defaults\<lparr>embedding_model := v\<rparr>
    \<and> Settings_init (e1 @ (''OLLAMA_BASE_URL'', v) # e2) dotenv
        = Settings_defaults\<lparr>ollama_base_url := v\<rparr>
    \<and> Settings_init (e1 @ (''PORTKEY_API_KEY'', v) # e2) dotenv
        = Settings_defaults\<lparr>portkey_api_key := Some v\<rparr>
    \<and> Settings_init (e1 @ (''PORTKEY_BASE_URL'', v) # e2) dotenv
        = Settings_defaults\<lparr>portkey_base_url := v\<rparr>"
  using Settings_init_unset [OF unrecognized_append [OF assms(1,2)] assms(3)]
    Settings_init_set [OF assms]
  by simp

theorem Settings_defaults_and_overrides_witness:
  "unrecognized [(''PATH'', ''/usr/bin'')] \<and> unrecognized [(''HOME'', ''/root'')]
   \<and> unrecognized (dotenv_vars None)
   \<and> Settings_init ([(''PATH'', ''/usr/bin'')] @ [(''HOME'', ''/root'')]) None = Settings_defaults
   \<and> Settings_init
        ([(''PATH'', ''/usr/bin'')] @ (''EMBEDDING_MODEL'', ''ollama'') # [(''HOME'', ''/root'')]) None
        = Settings_defaults\<lparr>embedding_model := ''ollama''\<rparr>
   \<and> Settings_init
        ([(''PATH'', ''/usr/bin'')] @ (''PORTKEY_API_KEY'', ''ollama'') # [(''HOME'', ''/root'')]) None
        = Settings_defaults\<lparr>portkey_api_key := Some ''ollama''\<rparr>"
proof -
  have 1: "unrecognized [(''PATH'', ''/usr/bin'')]"
    by (simp add: unrecognized_def Settings_fields_def lower_def lower_char_def)
  have 2: "unrecognized [(''HOME'', ''/root'')]"
    by (simp add: unrecognized_def Settings_fields_def lower_def lower_char_def)
  have 3: "unrecognized (dotenv_vars None)"
    by (simp add: unrecognized_def dotenv_vars_def)
  from Settings_defaults_and_overrides [OF 1 2 3, of "''ollama''"] 1 2 3
  show ?thesis by blast
qed

section \<open>Properties of the records\<close>

lemma Anchor_init_Inr:
  "Anchor_init c kw = Inr a \<longleftrightarrow>
     (\<exists>i t d s m. required validate_str (map_of kw ''anchor_id'') = Some i
        \<and> required validate_str (map_of kw ''text'') = Some t
        \<and> required (validate_datetime c) (map_of kw ''stored_at'') = Some d
        \<and> with_default (validate_float c) 1 (map_of kw ''salience'') = Some s
        \<and> with_default validate_dict [] (map_of kw ''meta'') = Some m
        \<and> a = \<lparr> Anchor.anchor_id = i, text = t, stored_at = d, salience = s, meta = m \<rparr>)"
  by (auto simp: Anchor_init_def Let_def split: option.splits)

lemma validate_str_Some: "validate_str v = Some s \<longleftrightarrow> v = PyStr s"
  by (cases v) auto

lemma required_Some: "required f arg = Some x \<longleftrightarrow> (\<exists>v. arg = Some v \<and> f v = Some x)"
  by (simp add: required_def split: option.splits)

lemma failed_None: "failed name None = [name]"
  by (simp add: failed_def)

lemma Anchor_init_Inl:
  assumes "required validate_str (map_of kw ''anchor_id'') = None
         \<or> required validate_str (map_of kw ''text'') = None
         \<or> required (validate_datetime c) (map_of kw ''stored_at'') = None
         \<or> with_default (validate_float c) 1 (map_of kw ''salience'') = None
         \<or> with_default validate_dict [] (map_of kw ''meta'') = None"
  shows "\<exists>fields. Anchor_init c kw = Inl (ValidationError fields) \<and> fields \<noteq> []"
  using assms
  by (auto simp: Anchor_init_def Let_def failed_None split: option.splits)

lemma IndexedAnchorResponse_init_Inl:
  assumes "required validate_str (map_of kw ''anchor_id'') = None
         \<or> required validate_bool (map_of kw ''ok'') = None
         \<or> with_default validate_optional_str None (map_of kw ''reason'') = None
         \<or> with_default validate_optional_str None (map_of kw ''detail'') = None"
  shows "\<exists>fields. IndexedAnchorResponse_init kw = Inl (ValidationError fields) \<and> fields \<noteq> []"
  using assms
  by (auto simp: IndexedAnchorResponse_init_def Let_def failed_None split: option.splits)

lemma required_None:
  "required f arg = None \<longleftrightarrow> arg = None \<or> (\<exists>v. arg = Some v \<and> f v = None)"
  by (simp add: required_def split: option.splits)

lemma with_default_None:
  "with_default f dflt arg = None \<longleftrightarrow> (\<exists>v. arg = Some v \<and> f v = None)"
  by (simp add: with_default_def split: option.splits)

lemma Anchor_init_fails_iff:
  "(\<exists>fields. Anchor_init c kw = Inl (ValidationError fields) \<and> fields \<noteq> []) \<longleftrightarrow>
     (required validate_str (map_of kw ''anchor_id'') = None
      \<or> required validate_str (map_of kw ''text'') = None
      \<or> required (validate_datetime c) (map_of kw ''stored_at'') = None
      \<or> with_default (validate_float c) 1 (map_of kw ''salience'') = None
      \<or> with_default validate_dict [] (map_of kw ''meta'') = None)"
proof
  assume "\<exists>fields. Anchor_init c kw = Inl (ValidationError fields) \<and> fields \<noteq> []"
  then show "required validate_str (map_of kw ''anchor_id'') = None
      \<or> required validate_str (map_of kw ''text'') = None
      \<or> required (validate_datetime c) (map_of kw ''stored_at'') = None
      \<or> with_default (validate_float c) 1 (map_of kw ''salience'') = None
      \<or> with_default validate_dict [] (map_of kw ''meta'') = None"
    by (auto simp: Anchor_init_def Let_def split: option.splits)
qed (rule Anchor_init_Inl)

lemma IndexedAnchorResponse_init_fails_iff:
  "(\<exists>fields. IndexedAnchorResponse_init kw = Inl (ValidationError fields) \<and> fields \<noteq> [])
     \<longleftrightarrow>
     (required validate_str (map_of kw ''anchor_id'') = None
      \<or> required validate_bool (map_of kw ''ok'') = None
      \<or> with_default validate_optional_str None (map_of kw ''reason'') = None
      \<or> with_default validate_optional_str None (map_of kw ''detail'') = None)"
proof
  assume "\<exists>fields. IndexedAnchorResponse_init kw = Inl (ValidationError fields) \<and> fields \<noteq> []"
  then show "required validate_str (map_of kw ''anchor_id'') = None
      \<or> required validate_bool (map_of kw ''ok'') = None
      \<or> with_default validate_optional_str None (map_of kw ''reason'') = None
      \<or> with_default validate_optional_str None (map_of kw ''detail'') = None"
    by (auto simp: IndexedAnchorResponse_init_def Let_def split: option.splits)
qed (rule IndexedAnchorResponse_init_Inl)

text \<open>
  C5: a constructed \<open>Anchor\<close> holds the text it was given, character for
  character: when the construction succeeds, the argument \<^verbatim>\<open>text\<close> was the string
  that the record holds. The text is any string, so also the empty one, a long one
  and one with control characters; and for any strings, timestamp, number and empty
  dictionary as arguments the construction does succeed.
\<close>

theorem Anchor_preserves_text:
  "(Anchor_init c kw = Inr a \<longrightarrow> map_of kw ''text'' = Some (PyStr (text a)))
   \<and> (\<exists>b. Anchor_init c [(''anchor_id'', PyStr i), (''text'', PyStr t),
              (''stored_at'', PyDatetime d), (''salience'', PyFloat s), (''meta'', PyDict [])]
            = Inr b \<and> text b = t)"
  by (auto simp: Anchor_init_Inr required_Some validate_str_Some with_default_def)

theorem Anchor_preserves_text_witness:
  "Anchor_init no_conversions
     [(''anchor_id'', PyStr ''weird-1''), (''text'', PyStr (''Null'' @ [CHR 0x00] @ ''Byte'')),
      (''stored_at'', PyDatetime \<lparr> year = 2024, month = 5, day = 17, hour = 12, minute = 30,
          second = 0, microsecond = 0, tzinfo = Some 0 \<rparr>)]
     = Inr \<lparr> Anchor.anchor_id = ''weird-1'', text = ''Null'' @ [CHR 0x00] @ ''Byte'',
           stored_at = \<lparr> year = 2024, month = 5, day = 17, hour = 12, minute = 30,
             second = 0, microsecond = 0, tzinfo = Some 0 \<rparr>,
           salience = 1, meta = [] \<rparr>
   \<and> map_of
       [(''anchor_id'', PyStr ''weird-1''), (''text'', PyStr (''Null'' @ [CHR 0x00] @ ''Byte'')),
        (''stored_at'', PyDatetime \<lparr> year = 2024, month = 5, day = 17, hour = 12, minute = 30,
            second = 0, microsecond = 0, tzinfo = Some 0 \<rparr>)] ''text''
     = Some (PyStr (''Null'' @ [CHR 0x00] @ ''Byte''))"
proof -
  let ?d = "\<lparr> year = 2024, month = 5, day = 17, hour = 12, minute = 30,
             second = 0, microsecond = 0, tzinfo = Some (0::int) \<rparr>"
  let ?kw = "[(''anchor_id'', PyStr ''weird-1''), (''text'', PyStr (''Null'' @ [CHR 0x00] @ ''Byte'')),
      (''stored_at'', PyDatetime ?d)]"
  let ?a = "\<lparr> Anchor.anchor_id = ''weird-1'', text = ''Null'' @ [CHR 0x00] @ ''Byte'',
           stored_at = ?d, salience = 1, meta = [] \<rparr>"
  have 1: "Anchor_init no_conversions ?kw = Inr ?a"
    by (simp add: Anchor_init_def required_def with_default_def)
  from Anchor_preserves_text [of no_conversions ?kw ?a] 1
  have "map_of ?kw ''text'' = Some (PyStr (text ?a))" by blast
  with 1 show ?thesis by simp
qed

text \<open>
  C6: an \<open>Anchor\<close> constructed without the argument \<^verbatim>\<open>salience\<close> has salience
  1.0, and one constructed without the argument \<^verbatim>\<open>meta\<close> has an empty mapping as
  its meta.
\<close>

theorem Anchor_defaults:
  "(Anchor_init c kw = Inr a \<and> map_of kw ''salience'' = None \<longrightarrow> salience a = 1)
   \<and> (Anchor_init c kw = Inr a \<and> map_of kw ''meta'' = None \<longrightarrow> meta a = [])"
  by (auto simp: Anchor_init_Inr with_default_def)

theorem Anchor_defaults_witness:
  "Anchor_init no_conversions
     [(''anchor_id'', PyStr ''test-123''), (''text'', PyStr ''Hello, world!''),
      (''stored_at'', PyDatetime \<lparr> year = 2024, month = 5, day = 17, hour = 12, minute = 30,
          second = 0, microsecond = 0, tzinfo = Some 0 \<rparr>)]
     = Inr \<lparr> Anchor.anchor_id = ''test-123'', text = ''Hello, world!'',
           stored_at = \<lparr> year = 2024, month = 5, day = 17, hour = 12, minute = 30,
             second = 0, microsecond = 0, tzinfo = Some 0 \<rparr>,
           salience = 1, meta = [] \<rparr>
   \<and> map_of
       [(''anchor_id'', PyStr ''test-123''), (''text'', PyStr ''Hello, world!''),
        (''stored_at'', PyDatetime \<lparr> year = 2024, month = 5, day = 17, hour = 12, minute = 30,
            second = 0, microsecond = 0, tzinfo = Some 0 \<rparr>)] ''salience'' = None
   \<and> map_of
       [(''anchor_id'', PyStr ''test-123''), (''text'', PyStr ''Hello, world!''),
        (''stored_at'', PyDatetime \<lparr> year = 2024, month = 5, day = 17, hour = 12, minute = 30,
            second = 0, microsecond = 0, tzinfo = Some 0 \<rparr>)] ''meta'' = None
   \<and> salience \<lparr> Anchor.anchor_id = ''test-123'', text = ''Hello, world!'',
           stored_at = \<lparr> year = 2024, month = 5, day = 17, hour = 12, minute = 30,
             second = 0, microsecond = 0, tzinfo = Some 0 \<rparr>,
           salience = 1, meta = [] \<rparr> = 1
   \<and> meta \<lparr> Anchor.anchor_id = ''test-123'', text = ''Hello, world!'',
           stored_at = \<lparr> year = 2024, month = 5, day = 17, hour = 12, minute = 30,
             second = 0, microsecond = 0, tzinfo = Some 0 \<rparr>,
           salience = 1, meta = [] \<rparr> = []"
proof -
  let ?d = "\<lparr> year = 2024, month = 5, day = 17, hour = 12, minute = 30,
             second = 0, microsecond = 0, tzinfo = Some (0::int) \<rparr>"
  let ?kw = "[(''anchor_id'', PyStr ''test-123''), (''text'', PyStr ''Hello, world!''),
      (''stored_at'', PyDatetime ?d)]"
  let ?a = "\<lparr> Anchor.anchor_id = ''test-123'', text = ''Hello, world!'',
           stored_at = ?d, salience = 1, meta = [] \<rparr>"
  have 1: "Anchor_init no_conversions ?kw = Inr ?a"
    by (simp add: Anchor_init_def required_def with_default_def)
  have 2: "map_of ?kw ''salience'' = None" by simp
  have 3: "map_of ?kw ''meta'' = None" by simp
  from Anchor_defaults [of no_conversions ?kw ?a] 1 2 3
  have "salience ?a = 1 \<and> meta ?a = []" by blast
  with 1 2 3 show ?thesis by blast
qed

text \<open>
  C8 as stated fails: the integer 1 is no \<^verbatim>\<open>bool\<close>, and an
  \<open>IndexedAnchorResponse\<close> given \<^verbatim>\<open>ok=1\<close> is constructed, with \<^verbatim>\<open>ok\<close> true.
\<close>

theorem IndexedAnchorResponse_accepts_int_for_bool:
  "IndexedAnchorResponse_init [(''anchor_id'', PyStr ''a-1''), (''ok'', PyInt 1)]
     = Inr \<lparr> anchor_id = ''a-1'', ok = True, reason = None, detail = None \<rparr>"
  by (simp add: IndexedAnchorResponse_init_def required_def with_default_def)

text \<open>
  C8, amended: the construction of an \<open>Anchor\<close> or of an
  \<open>IndexedAnchorResponse\<close> fails with a validation error that names at least one
  field, and yields no record, exactly when a required field is missing or the
  validation of some field rejects the value it is given. A value of another type
  that the validation converts is accepted (\<^verbatim>\<open>ok=1\<close>); one that it does not
  convert is rejected, as are \<^verbatim>\<open>ok=2\<close>, \<^verbatim>\<open>ok="maybe"\<close>, \<^verbatim>\<open>anchor_id=42\<close> and
  \<^verbatim>\<open>stored_at=True\<close>.
\<close>

theorem construction_fails:
  "((\<exists>fields. Anchor_init c kw1 = Inl (ValidationError fields) \<and> fields \<noteq> []) \<longleftrightarrow>
      (map_of kw1 ''anchor_id'' = None \<or> map_of kw1 ''text'' = None
       \<or> map_of kw1 ''stored_at'' = None
       \<or> (\<exists>v. map_of kw1 ''anchor_id'' = Some v \<and> validate_str v = None)
       \<or> (\<exists>v. map_of kw1 ''text'' = Some v \<and> validate_str v = None)
       \<or> (\<exists>v. map_of kw1 ''stored_at'' = Some v \<and> validate_datetime c v = None)
       \<or> (\<exists>v. map_of kw1 ''salience'' = Some v \<and> validate_float c v = None)
       \<or> (\<exists>v. map_of kw1 ''meta'' = Some v \<and> validate_dict v = None)))
   \<and> ((\<exists>fields. IndexedAnchorResponse_init kw2 = Inl (ValidationError fields) \<and> fields \<noteq> [])
      \<longleftrightarrow>
      (map_of kw2 ''anchor_id'' = None \<or> map_of kw2 ''ok'' = None
       \<or> (\<exists>v. map_of kw2 ''anchor_id'' = Some v \<and> validate_str v = None)
       \<or> (\<exists>v. map_of kw2 ''ok'' = Some v \<and> validate_bool v = None)
       \<or> (\<exists>v. map_of kw2 ''reason'' = Some v \<and> validate_optional_str v = None)
       \<or> (\<exists>v. map_of kw2 ''detail'' = Some v \<and> validate_optional_str v = None)))"
  unfolding Anchor_init_fails_iff IndexedAnchorResponse_init_fails_iff
    required_None with_default_None
  by blast

theorem construction_fails_witness:
  "(\<exists>fields. Anchor_init no_conversions
       [(''anchor_id'', PyInt 42), (''text'', PyStr ''hello''), (''stored_at'', PyBool True)]
       = Inl (ValidationError fields) \<and> fields \<noteq> [])
   \<and> (\<exists>fields. IndexedAnchorResponse_init [(''anchor_id'', PyStr ''a-1''), (''ok'', PyInt 2)]
       = Inl (ValidationError fields) \<and> fields \<noteq> [])
   \<and> (\<exists>fields. IndexedAnchorResponse_init
       [(''anchor_id'', PyStr ''a-1''), (''ok'', PyStr ''maybe'')]
       = Inl (ValidationError fields) \<and> fields \<noteq> [])
   \<and> (\<exists>fields. IndexedAnchorResponse_init [(''anchor_id'', PyStr ''a-1'')]
       = Inl (ValidationError fields) \<and> fields \<noteq> [])"
proof -
  let ?kw1 = "[(''anchor_id'', PyInt 42), (''text'', PyStr ''hello''), (''stored_at'', PyBool True)]"
  let ?kw2 = "[(''anchor_id'', PyStr ''a-1''), (''ok'', PyInt 2)]"
  let ?kw3 = "[(''anchor_id'', PyStr ''a-1''), (''ok'', PyStr ''maybe'')]"
  let ?kw4 = "[(''anchor_id'', PyStr ''a-1'')]"
  have 1: "\<exists>v. map_of ?kw1 ''stored_at'' = Some v \<and> validate_datetime no_conversions v = None"
    by simp
  have 2: "\<exists>v. map_of ?kw2 ''ok'' = Some v \<and> validate_bool v = None"
    by simp
  have 3: "\<exists>v. map_of ?kw3 ''ok'' = Some v \<and> validate_bool v = None"
    by (simp add: str_as_bool_def lower_def lower_char_def)
  have 4: "map_of ?kw4 ''ok'' = None"
    by simp
  from construction_fails [of no_conversions ?kw1 ?kw2] 1 2
  have a: "(\<exists>fields. Anchor_init no_conversions ?kw1 = Inl (ValidationError fields) \<and> fields \<noteq> [])
    \<and> (\<exists>fields. IndexedAnchorResponse_init ?kw2 = Inl (ValidationError fields) \<and> fields \<noteq> [])"
    by blast
  from construction_fails [of no_conversions ?kw1 ?kw3] 3
  have b: "\<exists>fields. IndexedAnchorResponse_init ?kw3 = Inl (ValidationError fields) \<and> fields \<noteq> []"
    by blast
  from construction_fails [of no_conversions ?kw1 ?kw4] 4
  have c: "\<exists>fields. IndexedAnchorResponse_init ?kw4 = Inl (ValidationError fields) \<and> fields \<noteq> []"
    by blast
  from a b c show ?thesis by blast
qed

text \<open>
  C9 as stated fails: an \<open>Anchor\<close> given a timestamp without a time zone is
  constructed, and its \<^verbatim>\<open>stored_at\<close> has no time zone.
\<close>

theorem Anchor_accepts_naive_datetime:
  "Anchor_init no_conversions
     [(''anchor_id'', PyStr ''a-1''), (''text'', PyStr ''hello''),
      (''stored_at'', PyDatetime \<lparr> year = 2024, month = 5, day = 17, hour = 12, minute = 30,
          second = 0, microsecond = 0, tzinfo = None \<rparr>)]
     = Inr \<lparr> Anchor.anchor_id = ''a-1'', text = ''hello'',
           stored_at = \<lparr> year = 2024, month = 5, day = 17, hour = 12, minute = 30,
             second = 0, microsecond = 0, tzinfo = None \<rparr>,
           salience = 1, meta = [] \<rparr>
   \<and> \<not> is_aware \<lparr> year = 2024, month = 5, day = 17, hour = 12, minute = 30,
             second = 0, microsecond = 0, tzinfo = None \<rparr>"
  by (simp add: Anchor_init_def required_def with_default_def is_aware_def)

text \<open>
  C9, amended: an \<open>Anchor\<close> constructed from a timestamp object holds that
  timestamp unchanged, so its \<^verbatim>\<open>stored_at\<close> is timezone-aware exactly when the
  timestamp given is.
\<close>

theorem Anchor_keeps_datetime:
  "Anchor_init c kw = Inr a \<Longrightarrow> map_of kw ''stored_at'' = Some (PyDatetime d) \<Longrightarrow>
     stored_at a = d \<and> (is_aware (stored_at a) \<longleftrightarrow> is_aware d)"
  by (auto simp: Anchor_init_Inr required_Some)

theorem Anchor_keeps_datetime_witness:
  "Anchor_init no_conversions
     [(''anchor_id'', PyStr ''a-1''), (''text'', PyStr ''hello''),
      (''stored_at'', PyDatetime \<lparr> year = 2024, month = 5, day = 17, hour = 12, minute = 30,
          second = 0, microsecond = 0, tzinfo = Some 0 \<rparr>)]
     = Inr \<lparr> Anchor.anchor_id = ''a-1'', text = ''hello'',
           stored_at = \<lparr> year = 2024, month = 5, day = 17, hour = 12, minute = 30,
             second = 0, microsecond = 0, tzinfo = Some 0 \<rparr>,
           salience = 1, meta = [] \<rparr>
   \<and> is_aware (stored_at \<lparr> Anchor.anchor_id = ''a-1'', text = ''hello'',
           stored_at = \<lparr> year = 2024, month = 5, day = 17, hour = 12, minute = 30,
             second = 0, microsecond = 0, tzinfo = Some 0 \<rparr>,
           salience = 1, meta = [] \<rparr>)"
proof -
  let ?d = "\<lparr> year = 2024, month = 5, day = 17, hour = 12, minute = 30,
             second = 0, microsecond = 0, tzinfo = Some (0::int) \<rparr>"
  let ?kw = "[(''anchor_id'', PyStr ''a-1''), (''text'', PyStr ''hello''),
      (''stored_at'', PyDatetime ?d)]"
  let ?a = "\<lparr> Anchor.anchor_id = ''a-1'', text = ''hello'',
           stored_at = ?d, salience = 1, meta = [] \<rparr>"
  have 1: "Anchor_init no_conversions ?kw = Inr ?a"
    by (simp add: Anchor_init_def required_def with_default_def)
  have 2: "map_of ?kw ''stored_at'' = Some (PyDatetime ?d)" by simp
  have 3: "is_aware ?d" by (simp add: is_aware_def)
  from Anchor_keeps_datetime [OF 1 2] 3 have "is_aware (stored_at ?a)" by blast
  with 1 show ?thesis by blast
qed

end
